theory Spec2Isabelle
  imports Main
begin

section \<open>Characters, strings and the parts of the program that the source does not show\<close>

text \<open>
  The Mozilla Common Voice loader (\<^verbatim>\<open>gluon/datasets/mcv_asr_dataset.py\<close>) works on Python
  strings, which are sequences of Unicode code points. A character is modelled by its code
  point and a string by the list of its characters; \<open>asc\<close> turns an ASCII literal into
  such a list.
\<close>

type_synonym pychar = nat
type_synonym pystr = "nat list"

definition asc :: "string \<Rightarrow> pystr" where
  "asc s = map of_char s"

text \<open>
  In the source file at hand every byte of a non-ASCII character literal reads \<^verbatim>\<open>?\<close>:
  a run \<^verbatim>\<open>??\<close> or \<^verbatim>\<open>???\<close> between two separators is one character outside ASCII,
  whose identity is not recoverable, and a run \<^verbatim>\<open>????\<close> is a non-empty string of such
  characters. These literals are parameters of the model: \<open>lit E l k\<close> is the \<open>k\<close>-th
  (from 0) illegible character literal of source line \<open>l\<close>, and \<open>lstr E l k\<close> the \<open>k\<close>-th
  illegible string literal of line \<open>l\<close>. Both are outside ASCII by construction and
  otherwise arbitrary.

  The same record holds what the loader takes from the Unicode tables of its libraries, on
  non-ASCII characters only: \<^verbatim>\<open>str.lower\<close> (which may depend on the position in the string
  and may yield several characters), the white-space class of \<^verbatim>\<open>\s\<close>,
  \<^verbatim>\<open>unicodedata.combining\<close> and \<^verbatim>\<open>unidecode.unidecode\<close>. On ASCII these functions are
  fixed and written out below.
\<close>

record env =
  lost_char :: "nat \<Rightarrow> nat \<Rightarrow> nat"
  lost_tail :: "nat \<Rightarrow> nat \<Rightarrow> nat list"
  lower_nonascii :: "pystr \<Rightarrow> nat \<Rightarrow> pystr"
  isspace_nonascii :: "pychar \<Rightarrow> bool"
  combining_nonascii :: "pychar \<Rightarrow> nat"
  unidecode_nonascii :: "pychar \<Rightarrow> pystr"

definition lit :: "env \<Rightarrow> nat \<Rightarrow> nat \<Rightarrow> pychar" where
  "lit E l k = 128 + lost_char E l k"

definition lstr :: "env \<Rightarrow> nat \<Rightarrow> nat \<Rightarrow> pystr" where
  "lstr E l k = lit E l k # map (\<lambda>n. 128 + n) (lost_tail E l k)"

section \<open>Library functions used by the loader\<close>

text \<open>\<^verbatim>\<open>sentence.lower()\<close>: ASCII capitals move to their small letters, other ASCII
  characters stay, the rest is left to the Unicode tables.\<close>

definition str_lower :: "env \<Rightarrow> pystr \<Rightarrow> pystr" where
  "str_lower E s =
     concat (map (\<lambda>(i, c).
        if c < 128 then [if 65 \<le> c \<and> c \<le> 90 then c + 32 else c]
        else lower_nonascii E s i) (enumerate 0 s))"

text \<open>The class \<^verbatim>\<open>\s\<close> of a Unicode pattern: on ASCII the characters 9 to 13, 28 to 31
  and the space.\<close>

definition isspace :: "env \<Rightarrow> pychar \<Rightarrow> bool" where
  "isspace E c =
     (if c < 128 then (9 \<le> c \<and> c \<le> 13) \<or> (28 \<le> c \<and> c \<le> 31) \<or> c = 32
      else isspace_nonascii E c)"

definition combining :: "env \<Rightarrow> pychar \<Rightarrow> nat" where
  "combining E c = (if c < 128 then 0 else combining_nonascii E c)"

definition unidecode :: "env \<Rightarrow> pychar \<Rightarrow> pystr" where
  "unidecode E c = (if c < 128 then [c] else unidecode_nonascii E c)"

text \<open>\<^verbatim>\<open>re.sub("a|b|...", rep, text)\<close> where every alternative is one character: each
  character of the alternation is replaced by \<open>rep\<close>.\<close>

definition re_sub_alt :: "pychar list \<Rightarrow> pystr \<Rightarrow> pystr \<Rightarrow> pystr" where
  "re_sub_alt alts rep text = concat (map (\<lambda>c. if c \<in> set alts then rep else [c]) text)"

text \<open>\<^verbatim>\<open>re.sub(pat, rep, text)\<close> for a literal pattern of several characters: the
  leftmost occurrences that do not overlap are replaced.\<close>

fun re_sub_lit :: "pystr \<Rightarrow> pystr \<Rightarrow> pystr \<Rightarrow> pystr" where
  "re_sub_lit pat rep [] = []"
| "re_sub_lit pat rep (c # cs) =
     (if pat \<noteq> [] \<and> take (length pat) (c # cs) = pat
      then rep @ re_sub_lit pat rep (drop (length pat - 1) cs)
      else c # re_sub_lit pat rep cs)"

text \<open>\<^verbatim>\<open>re.sub("\s+", " ", text)\<close>: every maximal run of white space becomes one space.\<close>

function re_sub_spaces :: "env \<Rightarrow> pystr \<Rightarrow> pystr" where
  "re_sub_spaces E [] = []"
| "re_sub_spaces E (c # cs) =
     (if isspace E c then 32 # re_sub_spaces E (dropWhile (isspace E) cs)
      else c # re_sub_spaces E cs)"
  by pat_completeness auto
termination
  by (relation "measure (\<lambda>(E, cs). length cs)")
     (auto simp: length_dropWhile_le less_Suc_eq_le)

text \<open>\<^verbatim>\<open>re.sub(" $", "", text)\<close>: \<^verbatim>\<open>$\<close> matches at the end of the string and before a
  newline that ends the string, so one space is removed in either place.\<close>

definition re_sub_trailing_space :: "pystr \<Rightarrow> pystr" where
  "re_sub_trailing_space text =
     (if text \<noteq> [] \<and> last text = 32 then butlast text
      else if 2 \<le> length text \<and> last text = 10 \<and> last (butlast text) = 32
      then butlast (butlast text) @ [10]
      else text)"

section \<open>The vocabulary table\<close>

datatype error = AssertionError | KeyError pychar

definition supported_langs :: "string list" where
  "supported_langs = [''en'', ''fr'', ''de'', ''it'', ''es'', ''ca'', ''pl'', ''ru'', ''ru34'']"

text \<open>\<^verbatim>\<open>McvDataset.get_vocabulary_for_lang\<close> (lines 209 to 253): the assertion, then one
  list per language.\<close>

definition get_vocabulary_for_lang :: "env \<Rightarrow> string \<Rightarrow> error + pystr" where
  "get_vocabulary_for_lang E lang =
     (if lang \<notin> set supported_langs then Inl AssertionError
      else
      if lang = ''en'' then Inr
       (asc '' abcdefghijklmnopqrs'' @
        asc ''tuvwxyz'' @ [39])
      else if lang = ''fr'' then Inr
       (asc '' abcdefghijklmnopqrs'' @
        asc ''tuvwxyz'' @ [39, lit E 229 0, lit E 229 1, lit E 229 2, lit E 229 3, lit E 229 4,
          lit E 229 5, lit E 229 6, lit E 229 7, lit E 229 8, lit E 229 9, lit E 229 10,
          lit E 229 11] @
        [lit E 230 0, lit E 230 1])
      else if lang = ''de'' then Inr
       (asc '' abcdefghijklmnopqrs'' @
        asc ''tuvwxyz'' @ [lit E 233 0, lit E 233 1, lit E 233 2, lit E 233 3])
      else if lang = ''it'' then Inr
       (asc '' abcdefghijklmnopqrs'' @
        asc ''tuvwxyz'' @ [39, lit E 236 0, lit E 236 1, lit E 236 2, lit E 236 3, lit E 236 4,
          lit E 236 5, lit E 236 6, lit E 236 7, lit E 236 8, lit E 236 9])
      else if lang = ''es'' then Inr
       (asc '' abcdefghijklmnopqrs'' @
        asc ''tuvwxyz'' @ [39, lit E 239 0, lit E 239 1, lit E 239 2, lit E 239 3, lit E 239 4,
          lit E 239 5, lit E 239 6])
      else if lang = ''ca'' then Inr
       (asc '' abcdefghijklmnopqrs'' @
        asc ''tuvwxyz'' @ [39, lit E 242 0, lit E 242 1, lit E 242 2, lit E 242 3, lit E 242 4,
          lit E 242 5, lit E 242 6, lit E 242 7, lit E 242 8, lit E 242 9])
      else if lang = ''pl'' then Inr
       (asc '' a'' @ [lit E 244 0] @ asc ''bc'' @ [lit E 244 1] @ asc ''de'' @ [lit E 244 2]
          @ asc ''fghijkl'' @ [lit E 244 3] @ asc ''mn'' @ [lit E 244 4] @
        asc ''o'' @ [lit E 245 0] @ asc ''prs'' @ [lit E 245 1] @ asc ''tuwyz'' @ [lit E 245 2,
          lit E 245 3])
      else if lang = ''ru'' then Inr
       (asc '' '' @ [lit E 247 0, lit E 247 1, lit E 247 2, lit E 247 3, lit E 247 4, lit E 247 5,
          lit E 247 6, lit E 247 7, lit E 247 8, lit E 247 9, lit E 247 10, lit E 247 11,
          lit E 247 12, lit E 247 13, lit E 247 14, lit E 247 15, lit E 247 16, lit E 247 17,
          lit E 247 18] @
        [lit E 248 0, lit E 248 1, lit E 248 2, lit E 248 3, lit E 248 4, lit E 248 5, lit E 248 6,
          lit E 248 7, lit E 248 8, lit E 248 9, lit E 248 10, lit E 248 11, lit E 248 12,
          lit E 248 13])
      else if lang = ''ru34'' then Inr
       (asc '' '' @ [lit E 250 0, lit E 250 1, lit E 250 2, lit E 250 3, lit E 250 4, lit E 250 5,
          lit E 250 6, lit E 250 7, lit E 250 8, lit E 250 9, lit E 250 10, lit E 250 11,
          lit E 250 12, lit E 250 13, lit E 250 14, lit E 250 15, lit E 250 16, lit E 250 17,
          lit E 250 18] @
        [lit E 251 0, lit E 251 1, lit E 251 2, lit E 251 3, lit E 251 4, lit E 251 5, lit E 251 6,
          lit E 251 7, lit E 251 8, lit E 251 9, lit E 251 10, lit E 251 11, lit E 251 12])
      else Inr [])"

section \<open>The normalisation cascade\<close>

text \<open>Line 95 keeps the characters that are not combining marks; lines 151, 157, 163 and
  171 pass every character outside the vocabulary through \<^verbatim>\<open>unidecode\<close>.\<close>

definition drop_combining :: "env \<Rightarrow> pystr \<Rightarrow> pystr" where
  "drop_combining E text = filter (\<lambda>c. combining E c = 0) text"

definition unidecode_fallback :: "env \<Rightarrow> pystr \<Rightarrow> pystr \<Rightarrow> pystr" where
  "unidecode_fallback E vocabulary text =
     concat (map (\<lambda>c. if c \<in> set vocabulary then [c] else unidecode E c) text)"

text \<open>The branches of lines 84 to 192, one list entry per assignment to \<^verbatim>\<open>text\<close>, in the
  order of the source.\<close>

definition en_rules :: "env \<Rightarrow> (pystr \<Rightarrow> pystr) list" where
  "en_rules E =
    [re_sub_alt (asc ''.-'' @ [lit E 85 0, lit E 85 1]) (asc '' ''),
     re_sub_alt (asc ''&'') (asc '' and ''),
     re_sub_alt ([lit E 87 0]) (asc ''o''),
     re_sub_alt ([lit E 88 0, lit E 88 1]) (asc ''a''),
     re_sub_alt ([lit E 89 0]) (asc ''e''),
     re_sub_alt (asc '',;:!?'' @ [34, lit E 90 0, lit E 90 1, lit E 90 2, lit E 90 3]
        @ asc ''()'') ([]),
     re_sub_spaces E,
     re_sub_lit (asc '' '' @ [39]) (asc '' ''),
     re_sub_lit ([39] @ asc '' '') (asc '' '')]"

definition fr_rules :: "env \<Rightarrow> (pystr \<Rightarrow> pystr) list" where
  "fr_rules E =
    [drop_combining E,
     re_sub_alt (asc ''.-'' @ [lit E 96 0, lit E 96 1] @ asc ''='' @ [lit E 96 2] @ asc ''*''
        @ [lit E 96 3] @ asc ''/'' @ [lit E 96 4] @ asc ''_'' @ [lit E 96 5]) (asc '' ''),
     re_sub_alt (asc '',;:!?'' @ [lit E 97 0, lit E 97 1, lit E 97 2, 34, lit E 97 3, lit E 97 4,
        lit E 97 5] @ asc ''()'') ([]),
     re_sub_alt ([lit E 98 0, lit E 98 1, lit E 98 2, lit E 98 3, lit E 98 4, lit E 98 5]
        @ asc ''$'' @ [lit E 98 6, lit E 98 7, lit E 98 8]) ([]),
     re_sub_alt ([lit E 99 0, lit E 99 1]) ([39]),
     re_sub_alt (asc ''&'') (asc '' and ''),
     re_sub_alt ([lit E 101 0]) (asc ''oe''),
     re_sub_alt ([lit E 102 0]) (asc ''ae''),
     re_sub_alt ([lit E 103 0, lit E 103 1, lit E 103 2, lit E 103 3, lit E 103 4, lit E 103 5,
        lit E 103 6]) (asc ''a''),
     re_sub_alt ([lit E 104 0, lit E 104 1, lit E 104 2, lit E 104 3, lit E 104 4,
        lit E 104 5]) (asc ''o''),
     re_sub_alt ([lit E 105 0, lit E 105 1, lit E 105 2]) (asc ''e''),
     re_sub_alt ([lit E 106 0, lit E 106 1]) (asc ''i''),
     re_sub_alt ([lit E 107 0, lit E 107 1]) (asc ''u''),
     re_sub_alt ([lit E 108 0]) (asc ''y''),
     re_sub_alt ([lit E 109 0, lit E 109 1, lit E 109 2, lit E 109 3]) (asc ''s''),
     re_sub_alt ([lit E 110 0, lit E 110 1, lit E 110 2]) (asc ''z''),
     re_sub_alt ([lit E 111 0, lit E 111 1, lit E 111 2]) (asc ''n''),
     re_sub_alt ([lit E 112 0, lit E 112 1]) (asc ''l''),
     re_sub_alt ([lit E 113 0, lit E 113 1]) (asc ''c''),
     re_sub_alt ([lit E 114 0]) (asc ''ya''),
     re_sub_alt ([lit E 115 0]) (asc ''r''),
     re_sub_alt ([lit E 116 0]) (asc ''d''),
     re_sub_alt ([lit E 117 0]) (asc ''t''),
     re_sub_alt ([lit E 118 0]) (asc ''th''),
     re_sub_alt ([lit E 119 0]) (asc ''g''),
     re_sub_alt ([lit E 120 0]) (asc ''ss''),
     re_sub_alt ([lit E 121 0]) (asc ''mu''),
     re_sub_spaces E]"

definition de_rules :: "env \<Rightarrow> (pystr \<Rightarrow> pystr) list" where
  "de_rules E =
    [re_sub_alt (asc ''.-'' @ [lit E 124 0, lit E 124 1] @ asc ''/_'' @ [lit E 124 2]) (asc '' ''),
     re_sub_alt (asc '',;:!?'' @ [34, 39, lit E 125 0, lit E 125 1, lit E 125 2, lit E 125 3,
        lit E 125 4, lit E 125 5, lit E 125 6, 34, lit E 125 7, lit E 125 8, lit E 125 9,
        lit E 125 10, lit E 125 11] @ asc ''()'') ([]),
     re_sub_alt ([lit E 126 0, lit E 126 1, lit E 126 2, lit E 126 3]) ([]),
     re_sub_alt (asc ''&'') (asc '' and ''),
     re_sub_alt ([lit E 128 0]) (asc ''a''),
     re_sub_alt ([lit E 129 0]) (asc ''ae''),
     re_sub_alt ([lit E 130 0, lit E 130 1, lit E 130 2, lit E 130 3, lit E 130 4, lit E 130 5,
        lit E 130 6]) (asc ''a''),
     re_sub_alt ([lit E 131 0, lit E 131 1, lit E 131 2, lit E 131 3, lit E 131 4, lit E 131 5,
        lit E 131 6]) (asc ''o''),
     re_sub_alt ([lit E 132 0, lit E 132 1, lit E 132 2, lit E 132 3, lit E 132 4]) (asc ''e''),
     re_sub_alt ([lit E 133 0, lit E 133 1]) (asc ''u''),
     re_sub_alt ([lit E 134 0, lit E 134 1, lit E 134 2]) (asc ''i''),
     re_sub_alt ([lit E 135 0, lit E 135 1, lit E 135 2, lit E 135 3]) (asc ''s''),
     re_sub_alt ([lit E 136 0, lit E 136 1]) (asc ''c''),
     re_sub_alt ([lit E 137 0]) (asc ''d''),
     re_sub_alt ([lit E 138 0]) (asc ''g''),
     re_sub_alt ([lit E 139 0]) (asc ''l''),
     re_sub_alt ([lit E 140 0]) (asc ''r''),
     re_sub_alt ([lit E 141 0]) (asc ''n''),
     re_sub_alt ([lit E 142 0]) (asc ''t''),
     re_sub_alt ([lit E 143 0, lit E 143 1]) (asc ''z''),
     re_sub_spaces E]"

definition it_rules :: "env \<Rightarrow> pystr \<Rightarrow> (pystr \<Rightarrow> pystr) list" where
  "it_rules E vocabulary =
    [re_sub_alt (asc ''.-'' @ [lit E 146 0, lit E 146 1] @ asc ''/_'' @ [lit E 146 2]) (asc '' ''),
     re_sub_alt (asc '',;:!?'' @ [34, lit E 147 0, lit E 147 1, 34, lit E 147 2, lit E 147 3,
        lit E 147 4, lit E 147 5, lit E 147 6] @ asc ''<>()'') ([]),
     re_sub_alt (asc ''$#'' @ [lit E 148 0]) ([]),
     re_sub_alt ([lit E 149 0] @ asc ''`'') ([39]),
     re_sub_alt ([lit E 150 0]) (asc ''a''),
     unidecode_fallback E vocabulary,
     re_sub_spaces E]"

definition es_rules :: "env \<Rightarrow> pystr \<Rightarrow> (pystr \<Rightarrow> pystr) list" where
  "es_rules E vocabulary =
    [re_sub_alt (asc ''.-'' @ [lit E 154 0, lit E 154 1] @ asc ''/=_{''
        @ [lit E 154 2]) (asc '' ''),
     re_sub_alt (asc '',;:!?'' @ [34, lit E 155 0, lit E 155 1, 34, lit E 155 2, lit E 155 3,
        lit E 155 4, lit E 155 5, lit E 155 6] @ asc ''<>()'' @ [lit E 155 7, lit E 155 8]) ([]),
     re_sub_alt ([lit E 156 0, lit E 156 1]) ([]),
     unidecode_fallback E vocabulary,
     re_sub_spaces E]"

definition ca_rules :: "env \<Rightarrow> pystr \<Rightarrow> (pystr \<Rightarrow> pystr) list" where
  "ca_rules E vocabulary =
    [re_sub_alt (asc ''.-'' @ [lit E 160 0, lit E 160 1] @ asc ''/=_'' @ [lit E 160 2]
        @ asc ''@+'' @ [lit E 160 3]) (asc '' ''),
     re_sub_alt (asc '',;:!?'' @ [34, lit E 161 0, lit E 161 1, 34, lit E 161 2, lit E 161 3,
        lit E 161 4, lit E 161 5, lit E 161 6] @ asc ''<>()'' @ [lit E 161 7, lit E 161 8]) ([]),
     re_sub_alt ([lit E 162 0, lit E 162 1]) ([]),
     unidecode_fallback E vocabulary,
     re_sub_spaces E]"

definition pl_rules :: "env \<Rightarrow> pystr \<Rightarrow> (pystr \<Rightarrow> pystr) list" where
  "pl_rules E vocabulary =
    [re_sub_alt (asc ''.-'' @ [lit E 166 0, lit E 166 1] @ asc ''/=_'' @ [lit E 166 2]
        @ asc ''@+'' @ [lit E 166 3]) (asc '' ''),
     re_sub_alt (asc '',;:!?'' @ [34, lit E 167 0, lit E 167 1, 34, lit E 167 2, lit E 167 3,
        lit E 167 4, lit E 167 5, lit E 167 6] @ asc ''<>()'') ([]),
     re_sub_alt (asc ''q'') (asc ''k''),
     re_sub_alt (asc ''x'') (asc ''ks''),
     re_sub_alt (asc ''v'') (asc ''w''),
     unidecode_fallback E vocabulary,
     re_sub_spaces E]"

definition ru_rules :: "env \<Rightarrow> (pystr \<Rightarrow> pystr) list" where
  "ru_rules E =
    [re_sub_lit (lstr E 174 0 @ asc ''-'') (lstr E 174 1),
     re_sub_lit (lstr E 175 0 @ asc ''-'') (lstr E 175 1),
     re_sub_lit (asc ''-'' @ lstr E 176 0) (lstr E 176 1),
     re_sub_alt (asc ''.'' @ [lit E 177 0] @ asc ''-'' @ [lit E 177 1, lit E 177 2,
        lit E 177 3]) (asc '' ''),
     re_sub_alt (asc '',;:!?'' @ [lit E 178 0, lit E 178 1, 34, lit E 178 2, lit E 178 3,
        lit E 178 4, lit E 178 5, 39]) ([]),
     re_sub_alt (asc ''m'') ([lit E 179 0]),
     re_sub_alt (asc ''o'') ([lit E 180 0]),
     re_sub_alt (asc ''z'') ([lit E 181 0]),
     re_sub_alt (asc ''i'') ([lit E 182 0]),
     re_sub_alt (asc ''l'') ([lit E 183 0]),
     re_sub_alt (asc ''a'') ([lit E 184 0]),
     re_sub_alt (asc ''f'') ([lit E 185 0]),
     re_sub_alt (asc ''r'') ([lit E 186 0]),
     re_sub_alt (asc ''e'') ([lit E 187 0]),
     re_sub_alt (asc ''x'') (lstr E 188 0),
     re_sub_alt (asc ''h'') ([lit E 189 0]),
     re_sub_spaces E]"

definition ru34_extra :: "env \<Rightarrow> (pystr \<Rightarrow> pystr) list" where
  "ru34_extra E =
    [re_sub_alt ([lit E 192 0]) ([lit E 192 1])]"

definition text_rules :: "env \<Rightarrow> pystr \<Rightarrow> string \<Rightarrow> (pystr \<Rightarrow> pystr) list" where
  "text_rules E vocabulary lang =
     (if lang = ''en'' then en_rules E
      else if lang = ''fr'' then fr_rules E
      else if lang = ''de'' then de_rules E
      else if lang = ''it'' then it_rules E vocabulary
      else if lang = ''es'' then es_rules E vocabulary
      else if lang = ''ca'' then ca_rules E vocabulary
      else if lang = ''pl'' then pl_rules E vocabulary
      else if lang \<in> {''ru'', ''ru34''}
      then ru_rules E @ (if lang = ''ru34'' then ru34_extra E else [])
      else [])"

definition apply_rules :: "(pystr \<Rightarrow> pystr) list \<Rightarrow> pystr \<Rightarrow> pystr" where
  "apply_rules rules text = fold (\<lambda>rule t. rule t) rules text"

text \<open>Lines 82 to 194: lower-casing, the branch of the language, the final strip.\<close>

definition normalize_sentence :: "env \<Rightarrow> pystr \<Rightarrow> string \<Rightarrow> pystr \<Rightarrow> pystr" where
  "normalize_sentence E vocabulary lang sentence =
     re_sub_trailing_space (apply_rules (text_rules E vocabulary lang) (str_lower E sentence))"

section \<open>The label encoder\<close>

text \<open>Line 46, \<^verbatim>\<open>{c: i for i, c in enumerate(self.vocabulary)}\<close>: a later entry of the
  vocabulary overwrites an earlier one for the same character.\<close>

definition vocabulary_dict :: "pystr \<Rightarrow> (pychar \<rightharpoonup> nat)" where
  "vocabulary_dict vocabulary =
     fold (\<lambda>(i, c) d. d(c \<mapsto> i)) (enumerate 0 vocabulary) Map.empty"

text \<open>Line 196, \<^verbatim>\<open>[vocabulary_dict[c] for c in text]\<close>: the first character without an
  entry raises \<^verbatim>\<open>KeyError\<close> with that character as its argument.\<close>

fun encode :: "(pychar \<rightharpoonup> nat) \<Rightarrow> pystr \<Rightarrow> error + nat list" where
  "encode d [] = Inr []"
| "encode d (c # cs) =
     (case d c of
        None \<Rightarrow> Inl (KeyError c)
      | Some i \<Rightarrow> (case encode d cs of Inl e \<Rightarrow> Inl e | Inr ids \<Rightarrow> Inr (i # ids)))"

text \<open>The loop of lines 75 to 197 over the sentences of the metadata table, as far as the
  labels are concerned; the first exception ends it.\<close>

fun encode_sentences ::
  "env \<Rightarrow> pystr \<Rightarrow> string \<Rightarrow> pystr list \<Rightarrow> error + nat list list" where
  "encode_sentences E vocabulary lang [] = Inr []"
| "encode_sentences E vocabulary lang (sentence # rest) =
     (case encode (vocabulary_dict vocabulary) (normalize_sentence E vocabulary lang sentence) of
        Inl e \<Rightarrow> Inl e
      | Inr label \<Rightarrow>
          (case encode_sentences E vocabulary lang rest of
             Inl e \<Rightarrow> Inl e
           | Inr labels \<Rightarrow> Inr (label # labels)))"

text \<open>\<^verbatim>\<open>McvDataset.__init__\<close>: the assertion of line 42, the vocabulary of line 43, then
  the loop. The accesses to the file system and to the audio libraries are left out.\<close>

definition McvDataset_init :: "env \<Rightarrow> string \<Rightarrow> pystr list \<Rightarrow> error + nat list list" where
  "McvDataset_init E lang data_sentences =
     (if lang \<notin> set supported_langs then Inl AssertionError
      else case get_vocabulary_for_lang E lang of
             Inl e \<Rightarrow> Inl e
           | Inr vocabulary \<Rightarrow> encode_sentences E vocabulary lang data_sentences)"



section \<open>Notions for the study of a second pass\<close>




section \<open>Decoding and a sample environment\<close>

text \<open>Modelled from the spec: decoding is not part of the loader. The spec's round trip
  reads an index sequence "back through the vocabulary table", that is, takes
  \<^verbatim>\<open>vocabulary[i]\<close> for every index; an index outside the table has no character.\<close>

fun decode :: "pystr \<Rightarrow> nat list \<Rightarrow> pystr option" where
  "decode vocabulary [] = Some []"
| "decode vocabulary (i # ids) =
     (if i < length vocabulary
      then map_option (\<lambda>text. vocabulary ! i # text) (decode vocabulary ids)
      else None)"

text \<open>One possible reading of the illegible literals and of the Unicode tables, for
  running the model on concrete sentences: all illegible literals differ, no non-ASCII
  character changes under \<^verbatim>\<open>lower\<close>, the no-break space is the only non-ASCII white space,
  nothing is a combining mark and \<^verbatim>\<open>unidecode\<close> has no transliteration.\<close>

definition sample_env :: env where
  "sample_env =
     \<lparr> lost_char = (\<lambda>l k. 1000 * l + k),
       lost_tail = (\<lambda>l k. [1000 * l + k + 500]),
       lower_nonascii = (\<lambda>s i. [s ! i]),
       isspace_nonascii = (\<lambda>c. c = 160),
       combining_nonascii = (\<lambda>c. 0),
       unidecode_nonascii = (\<lambda>c. []) \<rparr>"

section \<open>The vocabulary table: sizes\<close>

lemma vocabulary_en:
  "get_vocabulary_for_lang E ''en'' = Inr (asc '' abcdefghijklmnopqrstuvwxyz'' @ [39])"
  by (simp add: get_vocabulary_for_lang_def supported_langs_def asc_def)

text \<open>
  Claim C4. The vocabulary returned for \<^verbatim>\<open>"ru"\<close> has exactly 34 symbols and the one
  returned for \<^verbatim>\<open>"ru34"\<close> exactly 33, one symbol fewer, whatever the illegible letters are.
\<close>

theorem vocabulary_ru_lengths:
  "(\<exists>v. get_vocabulary_for_lang E ''ru'' = Inr v \<and> length v = 34) \<and>
   (\<exists>w. get_vocabulary_for_lang E ''ru34'' = Inr w \<and> length w = 33)"
  by (simp add: get_vocabulary_for_lang_def supported_langs_def asc_def)

section \<open>The English example\<close>




section \<open>The dictionary and the encoder\<close>

lemma dict_fold_None:
  "(fold (\<lambda>(i, c) d. d(c \<mapsto> i)) (enumerate n V) m c = None) = (m c = None \<and> c \<notin> set V)"
  by (induction V arbitrary: n m) auto

lemma dict_fold_Some:
  "fold (\<lambda>(i, c) d. d(c \<mapsto> i)) (enumerate n V) m c = Some i \<Longrightarrow>
     (c \<notin> set V \<and> m c = Some i) \<or> (n \<le> i \<and> i < n + length V \<and> V ! (i - n) = c)"
proof (induction V arbitrary: n m)
  case Nil
  then show ?case by simp
next
  case (Cons a V)
  from Cons.prems have "fold (\<lambda>(i, c) d. d(c \<mapsto> i)) (enumerate (Suc n) V) (m(a \<mapsto> n)) c = Some i"
    by (simp del: fun_upd_apply)
  from Cons.IH[OF this] show ?case
    by (auto split: if_splits simp: nth_Cons')
qed

lemma vocabulary_dict_None: "(vocabulary_dict V c = None) = (c \<notin> set V)"
  by (simp add: vocabulary_dict_def dict_fold_None)

lemma vocabulary_dict_Some: "vocabulary_dict V c = Some i \<Longrightarrow> i < length V \<and> V ! i = c"
  using dict_fold_Some[of 0 V Map.empty c i] by (simp add: vocabulary_dict_def)

lemma encode_Inr:
  "(encode d t = Inr ids) = (map d t = map Some ids)"
proof (induction t arbitrary: ids)
  case Nil
  then show ?case by auto
next
  case (Cons a t)
  show ?case
  proof (cases "d a")
    case None
    then show ?thesis by (cases ids) auto
  next
    case (Some i)
    show ?thesis
    proof (cases "encode d t")
      case (Inl e)
      have "\<And>ids'. map d t \<noteq> map Some ids'" using Cons.IH Inl by auto
      then show ?thesis using Some Inl by (cases ids) auto
    next
      case (Inr ids')
      then have "map d t = map Some ids'" using Cons.IH by blast
      then show ?thesis using Some Inr by (cases ids) auto
    qed
  qed
qed

lemma encode_Inl:
  "(encode d t = Inl e) =
     (\<exists>pre c post. t = pre @ c # post \<and> (\<forall>x\<in>set pre. d x \<noteq> None) \<and> d c = None \<and> e = KeyError c)"
proof (induction t)
  case Nil
  then show ?case by simp
next
  case (Cons a t)
  show ?case
  proof (cases "d a")
    case None
    show ?thesis
    proof
      assume "encode d (a # t) = Inl e"
      then have "e = KeyError a" using None by simp
      then have "a # t = [] @ a # t \<and> (\<forall>x\<in>set []. d x \<noteq> None) \<and> d a = None \<and> e = KeyError a"
        using None by simp
      then show "\<exists>pre c post. a # t = pre @ c # post \<and> (\<forall>x\<in>set pre. d x \<noteq> None) \<and> d c = None \<and> e = KeyError c"
        by blast
    next
      assume "\<exists>pre c post. a # t = pre @ c # post \<and> (\<forall>x\<in>set pre. d x \<noteq> None) \<and> d c = None \<and> e = KeyError c"
      then obtain pre c post where p: "a # t = pre @ c # post" "\<forall>x\<in>set pre. d x \<noteq> None" "d c = None" "e = KeyError c"
        by blast
      have "pre = []" using p(1,2) None by (cases pre) auto
      with p have "c = a" by simp
      then show "encode d (a # t) = Inl e" using None p(4) by simp
    qed
  next
    case (Some i)
    show ?thesis
    proof
      assume "encode d (a # t) = Inl e"
      then have "encode d t = Inl e" using Some by (auto split: sum.splits)
      then obtain pre c post where "t = pre @ c # post" "\<forall>x\<in>set pre. d x \<noteq> None" "d c = None" "e = KeyError c"
        using Cons.IH by blast
      then have "a # t = (a # pre) @ c # post \<and> (\<forall>x\<in>set (a # pre). d x \<noteq> None) \<and> d c = None \<and> e = KeyError c"
        using Some by simp
      then show "\<exists>pre c post. a # t = pre @ c # post \<and> (\<forall>x\<in>set pre. d x \<noteq> None) \<and> d c = None \<and> e = KeyError c"
        by blast
    next
      assume "\<exists>pre c post. a # t = pre @ c # post \<and> (\<forall>x\<in>set pre. d x \<noteq> None) \<and> d c = None \<and> e = KeyError c"
      then obtain pre c post where p: "a # t = pre @ c # post" "\<forall>x\<in>set pre. d x \<noteq> None" "d c = None" "e = KeyError c"
        by blast
      then obtain pre' where "pre = a # pre'" using Some by (cases pre) auto
      with p have "t = pre' @ c # post \<and> (\<forall>x\<in>set pre'. d x \<noteq> None) \<and> d c = None \<and> e = KeyError c" by simp
      then have "encode d t = Inl e" using Cons.IH by blast
      then show "encode d (a # t) = Inl e" using Some by simp
    qed
  qed
qed

lemma encode_not_assertion: "encode d t \<noteq> Inl AssertionError"
  by (simp add: encode_Inl)

lemma encode_sentences_not_assertion: "encode_sentences E V lang ss \<noteq> Inl AssertionError"
  by (induction ss) (auto split: sum.splits simp: encode_not_assertion)

lemma vocabulary_supported:
  "lang \<in> set supported_langs \<Longrightarrow> \<exists>V. get_vocabulary_for_lang E lang = Inr V"
  by (simp add: get_vocabulary_for_lang_def)

lemma encode_in_vocabulary:
  assumes "set t \<subseteq> set V"
  shows "\<exists>ids. encode (vocabulary_dict V) t = Inr ids \<and> length ids = length t \<and>
           (\<forall>k<length t. ids ! k < length V \<and> V ! (ids ! k) = t ! k)"
proof -
  have "\<forall>c\<in>set t. \<exists>i. vocabulary_dict V c = Some i"
    using assms vocabulary_dict_None[of V] by (metis not_None_eq subsetD)
  then have "\<exists>ids. map (vocabulary_dict V) t = map Some ids"
  proof (induction t)
    case Nil
    then show ?case by simp
  next
    case (Cons a t)
    then obtain ids i where "map (vocabulary_dict V) t = map Some ids" "vocabulary_dict V a = Some i"
      by auto
    then have "map (vocabulary_dict V) (a # t) = map Some (i # ids)" by simp
    then show ?case by blast
  qed
  then obtain ids where m: "map (vocabulary_dict V) t = map Some ids" by blast
  then have l: "length ids = length t" by (metis length_map)
  have "\<forall>k<length t. ids ! k < length V \<and> V ! (ids ! k) = t ! k"
  proof (intro allI impI)
    fix k assume k: "k < length t"
    have "map (vocabulary_dict V) t ! k = map Some ids ! k" using m by simp
    then have "vocabulary_dict V (t ! k) = Some (ids ! k)" using k l by simp
    then show "ids ! k < length V \<and> V ! (ids ! k) = t ! k"
      by (rule vocabulary_dict_Some)
  qed
  then show ?thesis using m l encode_Inr by blast
qed


lemma decode_map: "\<forall>i\<in>set ids. i < length V \<Longrightarrow> decode V ids = Some (map (\<lambda>i. V ! i) ids)"
  by (induction ids) auto

section \<open>The check of the language code\<close>

text \<open>
  Claim C8. \<^verbatim>\<open>McvDataset.__init__\<close> and \<^verbatim>\<open>get_vocabulary_for_lang\<close> fail on their
  assertion exactly for the language codes outside en, fr, de, it, es, ca, pl, ru, ru34.
  For such a code the result is the assertion error whatever the sentences are, so no
  sentence is normalised or encoded before; for a code of the set the assertion error does
  not occur.
\<close>

theorem unsupported_language_assertion:
  "(McvDataset_init E lang data_sentences = Inl AssertionError)
     = (lang \<notin> {''en'', ''fr'', ''de'', ''it'', ''es'', ''ca'', ''pl'', ''ru'', ''ru34''}) \<and>
   (get_vocabulary_for_lang E lang = Inl AssertionError)
     = (lang \<notin> {''en'', ''fr'', ''de'', ''it'', ''es'', ''ca'', ''pl'', ''ru'', ''ru34''})"
proof -
  have s: "set supported_langs = {''en'', ''fr'', ''de'', ''it'', ''es'', ''ca'', ''pl'', ''ru'', ''ru34''}"
    by (simp add: supported_langs_def)
  have a: "(get_vocabulary_for_lang E lang = Inl AssertionError) = (lang \<notin> set supported_langs)"
    using vocabulary_supported[of lang E] by (auto simp: get_vocabulary_for_lang_def)
  have b: "(McvDataset_init E lang data_sentences = Inl AssertionError) = (lang \<notin> set supported_langs)"
    using vocabulary_supported[of lang E]
    by (auto simp: McvDataset_init_def encode_sentences_not_assertion)
  show ?thesis using a b unfolding s by blast
qed


section \<open>Encoding a normalised string\<close>




text \<open>
  Claim C3. For the vocabulary of a supported language and a string over it, reading the
  encoded index sequence back in the vocabulary table gives the string again.
\<close>

theorem encode_decode_round_trip:
  assumes "get_vocabulary_for_lang E lang = Inr V" and "set t \<subseteq> set V"
  shows "\<exists>ids. encode (vocabulary_dict V) t = Inr ids \<and> decode V ids = Some t"
proof -
  obtain ids where e: "encode (vocabulary_dict V) t = Inr ids" "length ids = length t"
    and k: "\<forall>k<length t. ids ! k < length V \<and> V ! (ids ! k) = t ! k"
    using encode_in_vocabulary[OF assms(2)] by blast
  have "\<forall>i\<in>set ids. i < length V" using k e(2) by (metis in_set_conv_nth)
  then have "decode V ids = Some (map (\<lambda>i. V ! i) ids)" by (rule decode_map)
  moreover have "map (\<lambda>i. V ! i) ids = t"
    using k e(2) by (simp add: list_eq_iff_nth_eq)
  ultimately show ?thesis using e(1) by simp
qed


text \<open>The round trip at the English vocabulary.\<close>

theorem encode_decode_round_trip_witness:
  "get_vocabulary_for_lang sample_env ''en'' = Inr (asc '' abcdefghijklmnopqrstuvwxyz'' @ [39]) \<and>
   set (asc ''it's'') \<subseteq> set (asc '' abcdefghijklmnopqrstuvwxyz'' @ [39]) \<and>
   encode (vocabulary_dict (asc '' abcdefghijklmnopqrstuvwxyz'' @ [39])) (asc ''it's'')
     = Inr [9, 20, 27, 19] \<and>
   decode (asc '' abcdefghijklmnopqrstuvwxyz'' @ [39]) [9, 20, 27, 19] = Some (asc ''it's'')"
  using encode_decode_round_trip[where E = sample_env and t = "asc ''it's''", OF vocabulary_en]
  by (simp add: vocabulary_en vocabulary_dict_def asc_def)

section \<open>Characters that the rules leave in the text\<close>




























section \<open>The label of a sentence\<close>




section \<open>Polish: the letters q, x and v\<close>


section \<open>Russian with the merged letter\<close>


section \<open>A second pass of the normalisation\<close>

subsection \<open>Characters that no rule changes\<close>


































subsection \<open>Texts with collapsed white space\<close>














subsection \<open>The languages with a Latin vocabulary\<close>
































end
